theory Spec2Isabelle
  imports Complex_Main
begin

section \<open>Python text primitives\<close>

text \<open>
  The cleaning scripts work on Python \<open>str\<close> values. A string is modelled as a
  \<open>char list\<close> of ASCII text: the letters are \<open>A-Z\<close> and \<open>a-z\<close>, the digits
  \<open>0-9\<close>, and the white space of \<open>str.strip\<close>, \<open>str.isspace\<close> and the regex class
  \<open>\s\<close> is the set of codes 9-13 and 28-32. A byte above 127 is an uncased character
  that is neither a digit nor white space.
\<close>

definition isspace :: "char \<Rightarrow> bool" where
  "isspace c \<longleftrightarrow> (9 \<le> (of_char c :: nat) \<and> (of_char c :: nat) \<le> 13)
                 \<or> (28 \<le> (of_char c :: nat) \<and> (of_char c :: nat) \<le> 32)"

definition isdigit :: "char \<Rightarrow> bool" where
  "isdigit c \<longleftrightarrow> 48 \<le> (of_char c :: nat) \<and> (of_char c :: nat) \<le> 57"

definition isupper :: "char \<Rightarrow> bool" where
  "isupper c \<longleftrightarrow> 65 \<le> (of_char c :: nat) \<and> (of_char c :: nat) \<le> 90"

definition islower :: "char \<Rightarrow> bool" where
  "islower c \<longleftrightarrow> 97 \<le> (of_char c :: nat) \<and> (of_char c :: nat) \<le> 122"

definition iscased :: "char \<Rightarrow> bool" where
  "iscased c \<longleftrightarrow> isupper c \<or> islower c"

definition lower_char :: "char \<Rightarrow> char" where
  "lower_char c = (if isupper c then char_of ((of_char c :: nat) + 32) else c)"

definition upper_char :: "char \<Rightarrow> char" where
  "upper_char c = (if islower c then char_of ((of_char c :: nat) - 32) else c)"

text \<open>\<open>s.lower()\<close>\<close>

definition py_lower :: "string \<Rightarrow> string" where
  "py_lower s = map lower_char s"

text \<open>\<open>s.strip()\<close>: white space removed at both ends.\<close>

definition py_strip :: "string \<Rightarrow> string" where
  "py_strip s = rev (dropWhile isspace (rev (dropWhile isspace s)))"

text \<open>
  \<open>s.title()\<close>: a cased character is upper-cased when the character before it is
  not cased (or it is the first), and lower-cased otherwise. The flag is Python's
  \<open>previous_is_cased\<close>.
\<close>

fun title_from :: "bool \<Rightarrow> string \<Rightarrow> string" where
  "title_from prev [] = []"
| "title_from prev (c # cs) =
     (if prev then lower_char c else upper_char c) # title_from (iscased c) cs"

definition py_title :: "string \<Rightarrow> string" where
  "py_title s = title_from False s"

text \<open>\<open>s.startswith(p)\<close> and the substring test \<open>p in s\<close>.\<close>

definition startswith :: "string \<Rightarrow> string \<Rightarrow> bool" where
  "startswith s p \<longleftrightarrow> take (length p) s = p"

fun py_in :: "string \<Rightarrow> string \<Rightarrow> bool" where
  "py_in p [] = (p = [])"
| "py_in p (c # cs) = (startswith (c # cs) p \<or> py_in p cs)"

text \<open>
  \<open>s.replace(old, new)\<close>: the occurrences of \<open>old\<close> are replaced from left to
  right, without overlap. For an empty \<open>old\<close> Python puts \<open>new\<close> before every
  character and at the end.
\<close>

fun replace_from :: "string \<Rightarrow> string \<Rightarrow> string \<Rightarrow> string" where
  "replace_from old new [] = []"
| "replace_from old new (c # cs) =
     (if startswith (c # cs) old
      then new @ replace_from old new (drop (length old - 1) cs)
      else c # replace_from old new cs)"

definition py_replace :: "string \<Rightarrow> string \<Rightarrow> string \<Rightarrow> string" where
  "py_replace s old new =
     (if old = [] then new @ concat (map (\<lambda>c. c # new) s) else replace_from old new s)"

text \<open>
  \<open>str(x)\<close> of an integer: the decimal digits, with a minus sign for a negative
  number.
\<close>

fun digits_of :: "nat \<Rightarrow> string" where
  "digits_of n =
     (if n < 10 then [char_of (48 + n)]
      else digits_of (n div 10) @ [char_of (48 + n mod 10)])"

declare digits_of.simps [simp del]

definition str_int :: "int \<Rightarrow> string" where
  "str_int i = (if i < 0 then CHR ''-'' # digits_of (nat (- i)) else digits_of (nat i))"

text \<open>The exceptions of Python that the model names.\<close>

datatype py_error = ValueError | OverflowError | FileNotFoundError

text \<open>
  The values a cell or a column label of a data frame holds: a text, an integer, the
  missing marker NaN, or \<open>None\<close>. \<open>falsy\<close> is the test \<open>not x\<close>; NaN is a non-zero
  float, hence true.
\<close>

datatype pyobj = PyNone | PyStr string | PyInt int | PyNaN

fun falsy :: "pyobj \<Rightarrow> bool" where
  "falsy PyNone = True"
| "falsy (PyStr s) = (s = [])"
| "falsy (PyInt i) = (i = 0)"
| "falsy PyNaN = False"

fun py_str :: "pyobj \<Rightarrow> string" where
  "py_str PyNone = ''None''"
| "py_str (PyStr s) = s"
| "py_str (PyInt i) = str_int i"
| "py_str PyNaN = ''nan''"


section \<open>Column-name cleaning (clean\_population.py, clean\_religion.py)\<close>

text \<open>
  \<open>re.sub(r'\s+', '_', s)\<close>: every maximal run of white space becomes one
  underscore.
\<close>

fun ws_runs_from :: "bool \<Rightarrow> string \<Rightarrow> string" where
  "ws_runs_from in_run [] = []"
| "ws_runs_from in_run (c # cs) =
     (if isspace c
      then (if in_run then ws_runs_from True cs else CHR ''_'' # ws_runs_from True cs)
      else c # ws_runs_from False cs)"

definition sub_ws_runs :: "string \<Rightarrow> string" where
  "sub_ws_runs s = ws_runs_from False s"

text \<open>The class \<open>[a-z0-9_]\<close>; \<open>re.sub(r'[^a-z0-9_]', '', s)\<close> keeps its members.\<close>

definition key_char :: "char \<Rightarrow> bool" where
  "key_char c \<longleftrightarrow> islower c \<or> isdigit c \<or> c = CHR ''_''"

definition sub_non_key :: "string \<Rightarrow> string" where
  "sub_non_key s = filter key_char s"

text \<open>
  \<^verbatim>\<open>
  def clean_column_name(name):
      if not name: return "col"
      s = str(name).lower().strip()
      s = re.sub(r'\s+', '_', s)
      s = re.sub(r'[^a-z0-9_]', '', s)
      return s[:60]
  \<close>
\<close>

definition clean_column_name :: "pyobj \<Rightarrow> string" where
  "clean_column_name name =
     (if falsy name then ''col''
      else take 60 (sub_non_key (sub_ws_runs (py_strip (py_lower (py_str name))))))"


section \<open>Region-name cleaning (clean\_healthcare.py, clean\_occupation.py)\<close>

text \<open>
  \<open>re.sub(r'^State - ', '', name, flags=re.IGNORECASE)\<close>: the eight characters
  are removed when the string starts with them, in any letter case.
\<close>

definition sub_state_prefix :: "string \<Rightarrow> string" where
  "sub_state_prefix name =
     (if py_lower (take 8 name) = ''state - '' then drop 8 name else name)"

text \<open>
  \<open>re.sub(r'\s\(\d+\)$', '', name)\<close>. The pattern is one white-space character, an
  opening parenthesis, one or more digits and a closing parenthesis, at the end of the
  string; \<open>$\<close> also matches just before a final newline. \<open>match_code_rev\<close>
  reads the reversed string and returns what is left of the match, reversed.
\<close>

definition match_code_rev :: "string \<Rightarrow> string option" where
  "match_code_rev r =
     (case r of
        [] \<Rightarrow> None
      | c # r1 \<Rightarrow>
          if c = CHR '')'' \<and> takeWhile isdigit r1 \<noteq> []
          then (case dropWhile isdigit r1 of
                  p # w # rest \<Rightarrow> if p = CHR ''('' \<and> isspace w then Some rest else None
                | _ \<Rightarrow> None)
          else None)"

definition sub_code_end :: "string \<Rightarrow> string" where
  "sub_code_end name =
     (case match_code_rev (rev name) of
        Some rest \<Rightarrow> rev rest
      | None \<Rightarrow>
          (case rev name of
             [] \<Rightarrow> name
           | n # r \<Rightarrow>
               if n = CHR 0x0A
               then (case match_code_rev r of
                       Some rest \<Rightarrow> rev rest @ [CHR 0x0A]
                     | None \<Rightarrow> name)
               else name))"

text \<open>
  \<^verbatim>\<open>
  def clean_state_name(name):
      if not isinstance(name, str): return ""
      name = name.strip()
      name = re.sub(r'^State - ', '', name, flags=re.IGNORECASE)
      name = re.sub(r'\s\(\d+\)$', '', name)
      name = name.lower()
      name = name.replace('&', 'and')
      if 'maharastra' in name: return 'maharashtra'
      if 'dadra' in name and 'daman' in name:
          return 'dadra and nagar haveli and daman and diu'
      return name.title()
  \<close>
  \<open>norm_state\<close> is the value of \<open>name\<close> when the two tests are made.
\<close>

definition norm_state :: "string \<Rightarrow> string" where
  "norm_state s =
     py_replace (py_lower (sub_code_end (sub_state_prefix (py_strip s)))) ''&'' ''and''"

definition is_typo :: "string \<Rightarrow> bool" where
  "is_typo name \<longleftrightarrow> py_in ''maharastra'' name"

definition is_merged :: "string \<Rightarrow> bool" where
  "is_merged name \<longleftrightarrow> py_in ''dadra'' name \<and> py_in ''daman'' name"

definition clean_state_name :: "pyobj \<Rightarrow> string" where
  "clean_state_name x =
     (case x of
        PyStr s \<Rightarrow>
          (let name = norm_state s in
           if is_typo name then ''maharashtra''
           else if is_merged name then ''dadra and nagar haveli and daman and diu''
           else py_title name)
      | _ \<Rightarrow> [])"

text \<open>
  \<open>re.sub(r'\s*\(\d+\)', '', text)\<close> of clean\_occupation.py removes every match,
  from left to right. \<open>code_len\<close> is the length of the match that starts at the head
  of the string, if there is one: the white space, the two parentheses and the digits.
  \<open>sub_codes k\<close> drops the \<open>k\<close> characters still inside a match and goes on.
\<close>

definition code_len :: "string \<Rightarrow> nat option" where
  "code_len s =
     (case dropWhile isspace s of
        [] \<Rightarrow> None
      | p # r \<Rightarrow>
          if p = CHR ''('' \<and> takeWhile isdigit r \<noteq> []
          then (case dropWhile isdigit r of
                  [] \<Rightarrow> None
                | q # _ \<Rightarrow>
                    if q = CHR '')''
                    then Some (length (takeWhile isspace s) + length (takeWhile isdigit r) + 2)
                    else None)
          else None)"

fun sub_codes :: "nat \<Rightarrow> string \<Rightarrow> string" where
  "sub_codes k [] = []"
| "sub_codes k (c # cs) =
     (if 0 < k then sub_codes (k - 1) cs
      else (case code_len (c # cs) of
              Some n \<Rightarrow> sub_codes (n - 1) cs
            | None \<Rightarrow> c # sub_codes 0 cs))"

text \<open>
  \<^verbatim>\<open>
  def clean_text(text):
      if not isinstance(text, str): return text
      text = str(text).replace('State - ', '')
      text = re.sub(r'\s*\(\d+\)', '', text)
      return text.strip()
  \<close>
\<close>

definition clean_text :: "pyobj \<Rightarrow> pyobj" where
  "clean_text x =
     (case x of
        PyStr s \<Rightarrow> PyStr (py_strip (sub_codes 0 (py_replace s ''State - '' [])))
      | _ \<Rightarrow> x)"


section \<open>Data-frame helpers\<close>

text \<open>
  \<open>Series.unique()\<close>: the distinct values, in the order of their first appearance.
\<close>

fun unique_from :: "'a list \<Rightarrow> 'a list \<Rightarrow> 'a list" where
  "unique_from seen [] = []"
| "unique_from seen (x # xs) =
     (if x \<in> set seen then unique_from seen xs else x # unique_from (x # seen) xs)"

definition unique :: "'a list \<Rightarrow> 'a list" where
  "unique xs = unique_from [] xs"

text \<open>\<open>dict(zip(keys, values))\<close>: a later pair overwrites an earlier one with the same key.\<close>

definition dict_zip :: "'k list \<Rightarrow> 'v list \<Rightarrow> ('k \<rightharpoonup> 'v)" where
  "dict_zip ks vs = fold (\<lambda>(k, v) m. m(k \<mapsto> v)) (zip ks vs) Map.empty"

text \<open>
  A surrogate id as pandas holds it: an integer, or NaN. The maximum of a column skips
  NaN and is NaN for a column without a number; NaN + 1 is NaN.
\<close>

datatype idnum = IdInt int | IdNaN

fun id_ints :: "idnum list \<Rightarrow> int list" where
  "id_ints [] = []"
| "id_ints (IdInt n # xs) = n # id_ints xs"
| "id_ints (IdNaN # xs) = id_ints xs"

definition col_max :: "idnum list \<Rightarrow> idnum" where
  "col_max xs = (case id_ints xs of [] \<Rightarrow> IdNaN | n # ns \<Rightarrow> IdInt (fold max ns n))"

fun id_succ :: "idnum \<Rightarrow> idnum" where
  "id_succ (IdInt n) = IdInt (n + 1)"
| "id_succ IdNaN = IdNaN"


section \<open>The regions registry (clean\_healthcare.py, process\_data)\<close>

text \<open>
  A row of regions.csv is \<open>(state, area_name)\<close>. \<open>load_regions\<close> is lines 92-102:
  \<^verbatim>\<open>
  if os.path.exists(REGIONS_FILE):
      regions_df = pd.read_csv(REGIONS_FILE)
      next_id = regions_df['state'].max() + 1
  else:
      regions_df = pd.DataFrame(columns=['state', 'area_name'])
      next_id = 1
  regions_df['norm_name'] = regions_df['area_name'].apply(
      lambda x: clean_state_name(str(x)).lower())
  name_to_id = dict(zip(regions_df['norm_name'], regions_df['state']))
  \<close>
  The file is \<open>None\<close> when it does not exist.
\<close>

type_synonym region_row = "idnum \<times> pyobj"

record registry =
  name_to_id :: "string \<rightharpoonup> idnum"
  next_id :: idnum
  new_regions :: "(idnum \<times> string) list"

definition display_label :: "pyobj \<Rightarrow> string" where
  "display_label x = clean_state_name (PyStr (py_str x))"

definition norm_name :: "pyobj \<Rightarrow> string" where
  "norm_name x = py_lower (clean_state_name (PyStr (py_str x)))"

definition regions_rows :: "region_row list option \<Rightarrow> region_row list" where
  "regions_rows file = (case file of Some rows \<Rightarrow> rows | None \<Rightarrow> [])"

definition load_regions :: "region_row list option \<Rightarrow> registry" where
  "load_regions file =
     \<lparr> name_to_id = dict_zip (map (norm_name \<circ> snd) (regions_rows file))
                               (map fst (regions_rows file)),
       next_id = (case file of
                    Some rows \<Rightarrow> id_succ (col_max (map fst rows))
                  | None \<Rightarrow> IdInt 1),
       new_regions = [] \<rparr>"

text \<open>
  Lines 107-114, the loop over the distinct cleaned names:
  \<^verbatim>\<open>
  new_regions = []
  for state_name in df['clean_state'].unique():
      norm_name = state_name.lower()
      if norm_name not in name_to_id:
          name_to_id[norm_name] = next_id
          new_regions.append({'state': next_id, 'area_name': state_name})
          next_id += 1
  \<close>
\<close>

definition add_region :: "string \<Rightarrow> registry \<Rightarrow> registry" where
  "add_region state_name st =
     \<lparr> name_to_id = (name_to_id st)(py_lower state_name \<mapsto> next_id st),
       next_id = id_succ (next_id st),
       new_regions = new_regions st @ [(next_id st, state_name)] \<rparr>"

fun reconcile :: "string list \<Rightarrow> registry \<Rightarrow> registry" where
  "reconcile [] st = st"
| "reconcile (state_name # rest) st =
     (if name_to_id st (py_lower state_name) = None
      then reconcile rest (add_region state_name st)
      else reconcile rest st)"

text \<open>
  The regions step as a whole. The result holds the final map, the new rows, the
  registry file after the step (written only when there is a new row: the old rows
  followed by the new ones) and the \<open>state\<close> column of the fact table
  (\<open>df['clean_state'].str.lower().map(name_to_id)\<close>, NaN where the key is missing).
\<close>

record regions_result =
  res_name_to_id :: "string \<rightharpoonup> idnum"
  res_new_regions :: "(idnum \<times> string) list"
  res_regions_file :: "region_row list option"
  res_state :: "idnum list"

definition process_regions :: "region_row list option \<Rightarrow> pyobj list \<Rightarrow> regions_result" where
  "process_regions file states_uts =
     (let clean_state = map display_label states_uts;
          st = reconcile (unique clean_state) (load_regions file)
      in \<lparr> res_name_to_id = name_to_id st,
            res_new_regions = new_regions st,
            res_regions_file =
              (if new_regions st \<noteq> []
               then Some (regions_rows file @ map (\<lambda>(i, n). (i, PyStr n)) (new_regions st))
               else file),
            res_state =
              map (\<lambda>s. case name_to_id st (py_lower s) of Some i \<Rightarrow> i | None \<Rightarrow> IdNaN)
                  clean_state \<rparr>)"



section \<open>Lookup extraction and the religion fact table (clean\_religion.py)\<close>

text \<open>
  The TRU and religion lookups are numbered from the distinct labels of the input, as
  clean\_occupation.py, clean\_pca.py and clean\_religion.py all do:
  \<^verbatim>\<open>
  unique_tru = df['tru'].unique()
  tru_df = pd.DataFrame({'id': range(1, len(unique_tru) + 1), 'name': unique_tru})
  tru_map = dict(zip(tru_df['name'], tru_df['id']))
  df['tru_id'] = df['tru'].map(tru_map)
  \<close>
  A lookup row is \<open>(id, name)\<close>. \<open>Series.map\<close> gives NaN, here \<open>None\<close>, for a
  label that is not a key of the dictionary.
\<close>

type_synonym lookup_row = "int \<times> string"

definition extract_lookup :: "string list \<Rightarrow> lookup_row list" where
  "extract_lookup col = (let u = unique col in zip (map (\<lambda>i. int i + 1) [0..<length u]) u)"

definition lookup_map :: "lookup_row list \<Rightarrow> (string \<rightharpoonup> int)" where
  "lookup_map df = dict_zip (map snd df) (map fst df)"

text \<open>
  A row of the religion extract, with its measures and other columns kept as they are in
  \<open>in_rest\<close>, and the row of religion\_stats.csv made from it. \<open>in_state\<close> is
  \<open>None\<close> for a missing state code, which \<open>fillna(0).astype(int)\<close> turns into 0.
\<close>

record 'a religion_row =
  in_state :: "int option"
  in_tru :: string
  in_religion :: string
  in_rest :: 'a

record 'a stats_row =
  state :: int
  religion_id :: "int option"
  tru_id :: "int option"
  measures :: 'a

record 'a religion_output =
  tru_file :: "lookup_row list"
  religions_file :: "lookup_row list"
  stats_file :: "'a stats_row list"

text \<open>
  \<open>process_religion_data\<close>, lines 37-79. An existing tru.csv is read and kept; a
  missing one is made from the input. religions.csv is always made from the input.
  Every input row becomes a row of the stats file.
\<close>

definition process_religion_data ::
  "lookup_row list option \<Rightarrow> 'a religion_row list \<Rightarrow> 'a religion_output" where
  "process_religion_data tru_csv df =
     (let tru_df = (case tru_csv of
                      Some rows \<Rightarrow> rows
                    | None \<Rightarrow> extract_lookup (map in_tru df));
          tru_map = lookup_map tru_df;
          rel_df = extract_lookup (map in_religion df);
          rel_map = lookup_map rel_df
      in \<lparr> tru_file = tru_df,
            religions_file = rel_df,
            stats_file =
              map (\<lambda>r. \<lparr> state = (case in_state r of Some n \<Rightarrow> n | None \<Rightarrow> 0),
                         religion_id = rel_map (in_religion r),
                         tru_id = tru_map (in_tru r),
                         measures = in_rest r \<rparr>) df \<rparr>)"


section \<open>Uploading a fact table (upload\_religion.py, upload\_stats)\<close>

text \<open>
  \<open>pd.read_csv(STATS_FILE, chunksize=n)\<close> yields the rows in pieces of \<open>n\<close>; for a
  file without rows it yields one empty piece.
\<close>

function chunks :: "nat \<Rightarrow> 'a list \<Rightarrow> 'a list list" where
  "chunks n xs = (if n = 0 \<or> xs = [] then [] else take n xs # chunks n (drop n xs))"
  by pat_completeness auto
termination
  by (relation "measure (\<lambda>(n, xs). length xs)") auto

declare chunks.simps [simp del]

definition read_csv_chunks :: "nat \<Rightarrow> 'a list \<Rightarrow> 'a list list" where
  "read_csv_chunks n rows = (if rows = [] then [[]] else chunks n rows)"

text \<open>
  The loop of lines 81-88: the first piece replaces the destination table, the others
  are appended. A table that does not exist is \<open>None\<close>.
  \<^verbatim>\<open>
  first_chunk = True
  for chunk in df_iter:
      mode = 'replace' if first_chunk else 'append'
      chunk.to_sql(TABLE_NAME, engine, if_exists=mode, index=False)
      first_chunk = False
  \<close>
\<close>

fun upload_chunks :: "bool \<Rightarrow> 'a list list \<Rightarrow> 'a list option \<Rightarrow> 'a list option" where
  "upload_chunks first_chunk [] tbl = tbl"
| "upload_chunks first_chunk (chunk # later) tbl =
     upload_chunks False later
       (if first_chunk then Some chunk
        else Some ((case tbl of Some rows \<Rightarrow> rows | None \<Rightarrow> []) @ chunk))"

text \<open>
  \<open>upload_stats\<close>, lines 72-120. Without a stats file nothing is uploaded; otherwise
  the loop writes every piece. The foreign keys and the read policy are added after all
  the rows are in the table (lines 90-117); when the store rejects one of these
  statements the exception is caught and printed (lines 119-120), and the rows stay.
  What the store answers to these statements is not part of the model: the result is
  the destination table after the loop.
\<close>

definition upload_stats ::
  "'a stats_row list option \<Rightarrow> 'a stats_row list option \<Rightarrow> 'a stats_row list option" where
  "upload_stats stats_csv old_table =
     (case stats_csv of
        None \<Rightarrow> old_table
      | Some rows \<Rightarrow> upload_chunks True (read_csv_chunks 5000 rows) old_table)"


section \<open>Uploading a dimension table\<close>

text \<open>
  A dimension table at the destination: its rows \<open>(id, label)\<close>, whether it has a
  primary key on the id, and whether a foreign key of another table refers to it.
  \<open>to_sql(..., if_exists='replace')\<close> drops the table and creates it again from the
  frame, which the store rejects while a foreign key refers to the table (the comment
  at upload\_religion.py, lines 58-63, relies on it). \<open>if_exists='append'\<close> inserts the
  rows, which a primary key rejects when an id would occur twice. \<open>ADD PRIMARY KEY\<close>
  is rejected when the ids of the table are not distinct.
\<close>

datatype db_error = DbError

record 'a dim_table =
  t_rows :: "(int \<times> 'a) list"
  t_pkey :: bool
  t_referenced :: bool

definition to_sql_replace :: "'a dim_table option \<Rightarrow> (int \<times> 'a) list \<Rightarrow> db_error + 'a dim_table" where
  "to_sql_replace dest df =
     (case dest of
        Some t \<Rightarrow>
          if t_referenced t then Inl DbError
          else Inr \<lparr> t_rows = df, t_pkey = False, t_referenced = False \<rparr>
      | None \<Rightarrow> Inr \<lparr> t_rows = df, t_pkey = False, t_referenced = False \<rparr>)"

definition to_sql_append :: "'a dim_table \<Rightarrow> (int \<times> 'a) list \<Rightarrow> db_error + 'a dim_table" where
  "to_sql_append t df =
     (if t_pkey t \<and> \<not> distinct (map fst (t_rows t @ df)) then Inl DbError
      else Inr (t\<lparr> t_rows := t_rows t @ df \<rparr>))"

definition add_primary_key :: "'a dim_table \<Rightarrow> db_error + 'a dim_table" where
  "add_primary_key t =
     (if distinct (map fst (t_rows t)) then Inr (t\<lparr> t_pkey := True \<rparr>) else Inl DbError)"

text \<open>
  upload\_healthcare.py, \<open>update_regions\<close> (lines 38-76) and \<open>upload_tru\<close> (lines
  78-108) have the same body, on regions.csv and tru.csv. The file is \<open>None\<close> when it
  does not exist; the result is the destination table afterwards. An exception of the
  store is caught and printed, and leaves the table as the last accepted statement made
  it.
  \<^verbatim>\<open>
  df = pd.read_csv(REGIONS_FILE)
  result = conn.execute(text("SELECT to_regclass('public.regions')"))
  if result.scalar() is None:
      df.to_sql('regions', engine, if_exists='replace', index=False)
      conn.execute(text("ALTER TABLE regions ADD PRIMARY KEY (state);"))
      enable_rls('regions', engine)
      return
  existing_ids = pd.read_sql("SELECT state FROM regions", conn)['state'].tolist()
  new_rows = df[~df['state'].isin(existing_ids)]
  if not new_rows.empty:
      new_rows.to_sql('regions', engine, if_exists='append', index=False)
  \<close>
\<close>

definition update_regions ::
  "(int \<times> 'a) list option \<Rightarrow> 'a dim_table option \<Rightarrow> 'a dim_table option" where
  "update_regions csv dest =
     (case csv of
        None \<Rightarrow> dest
      | Some df \<Rightarrow>
          (case dest of
             None \<Rightarrow>
               (case to_sql_replace None df of
                  Inl e \<Rightarrow> dest
                | Inr t \<Rightarrow> (case add_primary_key t of Inl e \<Rightarrow> Some t | Inr t' \<Rightarrow> Some t'))
           | Some t \<Rightarrow>
               (let existing_ids = map fst (t_rows t);
                    new_rows = filter (\<lambda>r. fst r \<notin> set existing_ids) df
                in if new_rows \<noteq> []
                   then (case to_sql_append t new_rows of Inl e \<Rightarrow> Some t | Inr t' \<Rightarrow> Some t')
                   else Some t)))"

definition upload_tru :: "(int \<times> 'a) list option \<Rightarrow> 'a dim_table option \<Rightarrow> 'a dim_table option" where
  "upload_tru csv dest = update_regions csv dest"

text \<open>
  upload\_population\_normalized.py, \<open>upload_regions\<close> (lines 37-61): the table is
  replaced by the file, whatever the destination holds. The result is the table
  afterwards and the value returned.
  \<^verbatim>\<open>
  df = pd.read_csv(REGIONS_FILE)
  try:
      df.to_sql('regions', engine, if_exists='replace', index=False, chunksize=1000)
      with engine.begin() as conn:
          conn.execute(text("ALTER TABLE regions ADD PRIMARY KEY (state);"))
      enable_rls('regions', engine)
      return True
  except Exception as e:
      return False
  \<close>
\<close>

definition upload_regions ::
  "(int \<times> 'a) list option \<Rightarrow> 'a dim_table option \<Rightarrow> 'a dim_table option \<times> bool" where
  "upload_regions csv dest =
     (case csv of
        None \<Rightarrow> (dest, False)
      | Some df \<Rightarrow>
          (case to_sql_replace dest df of
             Inl e \<Rightarrow> (dest, False)
           | Inr t \<Rightarrow>
               (case add_primary_key t of
                  Inl e \<Rightarrow> (Some t, False)
                | Inr t' \<Rightarrow> (Some t', True))))"


text \<open>
  upload\_pca.py, \<open>upload_tru\<close> (lines 32-44) has the \<open>try\<close> of \<open>upload_regions\<close>, on
  tru.csv: \<open>df.to_sql('tru', engine, if_exists='replace', index=False)\<close>, then the
  primary key. It is named \<open>upload_tru_pca\<close> here, to tell it from the function of
  upload\_healthcare.py. There is no test that the file exists and the file is read
  before the \<open>try\<close>: when it is missing, \<open>read_csv\<close> raises and nothing is written.
\<close>

definition upload_tru_pca ::
  "(int \<times> 'a) list option \<Rightarrow> 'a dim_table option
   \<Rightarrow> py_error + ('a dim_table option \<times> bool)" where
  "upload_tru_pca csv dest =
     (case csv of
        None \<Rightarrow> Inl FileNotFoundError
      | Some df \<Rightarrow>
          (case to_sql_replace dest df of
             Inl e \<Rightarrow> Inr (dest, False)
           | Inr t \<Rightarrow>
               (case add_primary_key t of
                  Inl e \<Rightarrow> Inr (Some t, False)
                | Inr t' \<Rightarrow> Inr (Some t', True))))"

text \<open>
  upload\_religion.py, \<open>upload_lookups\<close> (lines 37-70) does what \<open>upload_regions\<close> does
  for religions.csv and then for tru.csv, each under its own test that the file exists
  and in its own \<open>try\<close>; it returns nothing, and the result here is the two tables
  afterwards.
\<close>

definition upload_lookups ::
  "(int \<times> 'a) list option \<Rightarrow> (int \<times> 'b) list option \<Rightarrow>
   'a dim_table option \<times> 'b dim_table option \<Rightarrow> 'a dim_table option \<times> 'b dim_table option" where
  "upload_lookups religions_csv tru_csv dest =
     (fst (upload_regions religions_csv (fst dest)), fst (upload_regions tru_csv (snd dest)))"


section \<open>Integer measures (clean\_occupation.py, clean\_population.py)\<close>

text \<open>
  A cell of a measure column: a finite number, a text, or the missing marker.
  \<open>read_excel\<close> and \<open>read_csv\<close> are called without \<open>na_values\<close>, so a text cell
  that is one of pandas' default missing-value words is read as the missing marker:
  \<open>read_cell\<close> is that step.
\<close>

datatype measure = Number rat | Text string | Missing
















section \<open>Predicates and helpers used in the statements\<close>

text \<open>
  A text is title-cased when no cased character that follows a cased one is upper-case
  and no cased character that starts a word is lower-case. The flag says whether the
  character before is cased.
\<close>

fun is_titled :: "bool \<Rightarrow> string \<Rightarrow> bool" where
  "is_titled prev [] = True"
| "is_titled prev (c # cs) =
     ((if prev then \<not> isupper c else \<not> islower c) \<and> is_titled (iscased c) cs)"

text \<open>The labels numbered \<open>n\<close>, \<open>n + 1\<close>, ... in their order.\<close>

fun number_from :: "int \<Rightarrow> string list \<Rightarrow> (idnum \<times> string) list" where
  "number_from n [] = []"
| "number_from n (l # ls) = (IdInt n, l) # number_from (n + 1) ls"


section \<open>Properties of column-name cleaning\<close>

lemmas text_eval = isspace_def isdigit_def isupper_def islower_def iscased_def lower_char_def
  upper_char_def py_lower_def py_strip_def py_title_def startswith_def py_replace_def
  char_of_def bit_Suc_0_iff key_char_def sub_non_key_def sub_ws_runs_def

lemma set_sub_non_key: "list_all key_char (sub_non_key s)"
  by (simp add: sub_non_key_def list_all_iff)

lemma key_char_col: "list_all key_char ''col''"
  by (simp add: key_char_def islower_def isdigit_def)

lemma list_all_take: "list_all P xs \<Longrightarrow> list_all P (take n xs)"
  by (auto simp: list_all_iff dest: in_set_takeD)

text \<open>
  C6. Column-name cleaning is a total function on every label (text, number, NaN or
  None). A falsy label gives the placeholder \<open>col\<close>; any other label gives its text
  lower-cased, trimmed, with each run of white space turned into one underscore, the
  characters outside \<open>[a-z0-9_]\<close> removed, cut to 60 characters. Whatever the input, the
  result consists of characters of \<open>[a-z0-9_]\<close> only and is at most 60 long.
\<close>

theorem clean_column_name_total:
  "(falsy name \<longrightarrow> clean_column_name name = ''col'')
   \<and> (\<not> falsy name \<longrightarrow>
        clean_column_name name
          = take 60 (filter key_char (sub_ws_runs (py_strip (py_lower (py_str name))))))
   \<and> list_all key_char (clean_column_name name)
   \<and> length (clean_column_name name) \<le> 60"
proof (cases "falsy name")
  case True
  then show ?thesis
    using key_char_col by (simp add: clean_column_name_def)
next
  case False
  then show ?thesis
    using list_all_take [OF set_sub_non_key]
    by (simp add: clean_column_name_def sub_non_key_def)
qed

theorem clean_column_name_total_witness:
  "falsy PyNone \<and> clean_column_name PyNone = ''col''
   \<and> \<not> falsy (PyStr '' Area  Name (Distt.) '')
   \<and> clean_column_name (PyStr '' Area  Name (Distt.) '') = ''area_name_distt''
   \<and> list_all key_char (clean_column_name (PyStr '' Area  Name (Distt.) ''))
   \<and> length (clean_column_name (PyStr '' Area  Name (Distt.) '')) \<le> 60"
  using clean_column_name_total [of PyNone]
    clean_column_name_total [of "PyStr '' Area  Name (Distt.) ''"]
  by (simp add: text_eval)


section \<open>Properties of region-name cleaning\<close>

lemma length_py_lower [simp]: "length (py_lower s) = length s"
  by (simp add: py_lower_def)













lemma iscased_lower_char: "iscased (lower_char c) = iscased c"
  by (auto simp: iscased_def lower_char_def isupper_def islower_def)

lemma iscased_upper_char: "iscased (upper_char c) = iscased c"
  by (auto simp: iscased_def upper_char_def isupper_def islower_def)

lemma not_upper_lower_char: "\<not> isupper (lower_char c)"
  by (auto simp: lower_char_def isupper_def)

lemma not_lower_upper_char: "\<not> islower (upper_char c)"
  by (auto simp: upper_char_def islower_def)

lemma is_titled_title_from: "is_titled b (title_from b s)"
  by (induction s arbitrary: b)
     (simp_all add: iscased_lower_char iscased_upper_char not_upper_lower_char not_lower_upper_char)



section \<open>Properties of the registry merge\<close>

lemma add_region_sel [simp]:
  "name_to_id (add_region l st) = (name_to_id st)(py_lower l \<mapsto> next_id st)"
  "next_id (add_region l st) = id_succ (next_id st)"
  "new_regions (add_region l st) = new_regions st @ [(next_id st, l)]"
  by (simp_all add: add_region_def)

lemma reconcile_absent:
  "name_to_id st (py_lower l) = None \<Longrightarrow> reconcile (l # ls) st = reconcile ls (add_region l st)"
  by simp

lemma reconcile_present:
  "name_to_id st (py_lower l) = Some v \<Longrightarrow> reconcile (l # ls) st = reconcile ls st"
  by simp




lemma reconcile_unique_from:
  "\<forall>x\<in>set seen. name_to_id st (py_lower x) \<noteq> None \<Longrightarrow>
   reconcile (unique_from seen ls) st = reconcile ls st"
proof (induction ls arbitrary: seen st)
  case Nil
  then show ?case by simp
next
  case (Cons x xs)
  show ?case
  proof (cases "name_to_id st (py_lower x)")
    case None
    with Cons.prems have new: "x \<notin> set seen" by auto
    have "\<forall>y\<in>set (x # seen). name_to_id (add_region x st) (py_lower y) \<noteq> None"
      using Cons.prems by simp
    from Cons.IH [OF this] new None show ?thesis by simp
  next
    case (Some w)
    show ?thesis
    proof (cases "x \<in> set seen")
      case True
      from Cons.IH [OF Cons.prems] True Some show ?thesis by simp
    next
      case False
      have "\<forall>y\<in>set (x # seen). name_to_id st (py_lower y) \<noteq> None"
        using Cons.prems Some by simp
      from Cons.IH [OF this] False Some show ?thesis by simp
    qed
  qed
qed

lemma reconcile_unique: "reconcile (unique ls) st = reconcile ls st"
  by (simp add: unique_def reconcile_unique_from)




section \<open>Claims on region-name cleaning\<close>

lemmas state_eval = text_eval sub_state_prefix_def match_code_rev_def sub_code_end_def norm_state_def
  is_typo_def is_merged_def clean_state_name_def code_len_def clean_text_def








lemma reconcile_new_from:
  "(i, l) \<in> set (new_regions (reconcile ls st)) \<Longrightarrow>
   (i, l) \<in> set (new_regions st) \<or> l \<in> set ls"
proof (induction ls arbitrary: st)
  case Nil
  then show ?case by simp
next
  case (Cons x xs)
  show ?case
  proof (cases "name_to_id st (py_lower x)")
    case None
    from Cons.prems have "(i, l) \<in> set (new_regions (reconcile xs (add_region x st)))"
      by (simp only: reconcile_absent [OF None])
    from Cons.IH [OF this] show ?thesis by auto
  next
    case (Some w)
    from Cons.prems have "(i, l) \<in> set (new_regions (reconcile xs st))"
      by (simp only: reconcile_present [OF Some])
    from Cons.IH [OF this] show ?thesis by auto
  qed
qed

lemma new_regions_cleaned:
  assumes "(i, l) \<in> set (res_new_regions (process_regions csv states_uts))"
  shows "\<exists>x\<in>set states_uts. l = clean_state_name (PyStr (py_str x))"
proof -
  from assms have "(i, l) \<in> set (new_regions
      (reconcile (map display_label states_uts) (load_regions csv)))"
    by (simp add: process_regions_def Let_def reconcile_unique)
  from reconcile_new_from [OF this] have "l \<in> set (map display_label states_uts)"
    by (simp add: load_regions_def)
  then show ?thesis by (auto simp: display_label_def)
qed

lemma lowercase_constants:
  "list_all (\<lambda>c. \<not> isupper c) ''maharashtra''"
  "list_all (\<lambda>c. \<not> isupper c) ''dadra and nagar haveli and daman and diu''"
  by (simp_all add: isupper_def)

text \<open>
  C10. Region-name cleaning is not title-cased throughout. A name on which the typo
  test or the merge test succeeds (the tests are made on the lower-cased name with
  \<open>and\<close> for \<open>&\<close>) is returned as a fixed text without any upper-case letter; every
  other text is returned title-cased. The label stored in a new row of the regions
  table is the cleaned name as returned, so a corrected or merged state is stored in
  lower case.
\<close>

theorem clean_state_name_case:
  "(is_typo (norm_state s) \<longrightarrow> clean_state_name (PyStr s) = ''maharashtra'')
   \<and> (\<not> is_typo (norm_state s) \<and> is_merged (norm_state s) \<longrightarrow>
        clean_state_name (PyStr s) = ''dadra and nagar haveli and daman and diu'')
   \<and> (is_typo (norm_state s) \<or> is_merged (norm_state s) \<longrightarrow>
        list_all (\<lambda>c. \<not> isupper c) (clean_state_name (PyStr s)))
   \<and> (\<not> is_typo (norm_state s) \<and> \<not> is_merged (norm_state s) \<longrightarrow>
        clean_state_name (PyStr s) = py_title (norm_state s)
        \<and> is_titled False (clean_state_name (PyStr s)))
   \<and> (\<forall>(i, l) \<in> set (res_new_regions (process_regions csv states_uts)).
        \<exists>x\<in>set states_uts. l = clean_state_name (PyStr (py_str x)))"
proof -
  have t: "is_titled False (py_title (norm_state s))"
    by (simp add: py_title_def is_titled_title_from)
  have n: "\<forall>(i, l) \<in> set (res_new_regions (process_regions csv states_uts)).
        \<exists>x\<in>set states_uts. l = clean_state_name (PyStr (py_str x))"
    using new_regions_cleaned by blast
  show ?thesis
    using t n lowercase_constants
    by (simp add: clean_state_name_def Let_def)
qed

lemmas reg_eval = state_eval unique_def dict_zip_def col_max_def display_label_def norm_name_def
  regions_rows_def load_regions_def process_regions_def add_region_def


theorem clean_state_name_case_witness:
  "is_typo (norm_state ''Maharastra'')
   \<and> clean_state_name (PyStr ''Maharastra'') = ''maharashtra''
   \<and> \<not> is_typo (norm_state ''Dadra & Nagar Haveli and Daman & Diu'')
   \<and> is_merged (norm_state ''Dadra & Nagar Haveli and Daman & Diu'')
   \<and> clean_state_name (PyStr ''Dadra & Nagar Haveli and Daman & Diu'')
       = ''dadra and nagar haveli and daman and diu''
   \<and> \<not> is_typo (norm_state ''TAMIL NADU'') \<and> \<not> is_merged (norm_state ''TAMIL NADU'')
   \<and> clean_state_name (PyStr ''TAMIL NADU'') = ''Tamil Nadu''
   \<and> is_titled False (clean_state_name (PyStr ''TAMIL NADU''))
   \<and> res_new_regions (process_regions None [PyStr ''Maharastra'', PyStr ''TAMIL NADU''])
       = [(IdInt 1, ''maharashtra''), (IdInt 2, ''Tamil Nadu'')]"
proof -
  have h: "is_typo (norm_state ''Maharastra'')"
    "\<not> is_typo (norm_state ''Dadra & Nagar Haveli and Daman & Diu'')"
    "is_merged (norm_state ''Dadra & Nagar Haveli and Daman & Diu'')"
    "\<not> is_typo (norm_state ''TAMIL NADU'')" "\<not> is_merged (norm_state ''TAMIL NADU'')"
    by (simp_all add: state_eval)
  have e: "py_title (norm_state ''TAMIL NADU'') = ''Tamil Nadu''"
    by (simp add: state_eval)
  have r: "res_new_regions (process_regions None [PyStr ''Maharastra'', PyStr ''TAMIL NADU''])
       = [(IdInt 1, ''maharashtra''), (IdInt 2, ''Tamil Nadu'')]"
    by (simp add: reg_eval)
  have a: "clean_state_name (PyStr ''Maharastra'') = ''maharashtra''"
    using clean_state_name_case [of "''Maharastra''" None "[]"] h(1) by blast
  have b: "clean_state_name (PyStr ''Dadra & Nagar Haveli and Daman & Diu'')
       = ''dadra and nagar haveli and daman and diu''"
    using clean_state_name_case [of "''Dadra & Nagar Haveli and Daman & Diu''" None "[]"] h(2,3)
    by blast
  have c: "clean_state_name (PyStr ''TAMIL NADU'') = py_title (norm_state ''TAMIL NADU'')
       \<and> is_titled False (clean_state_name (PyStr ''TAMIL NADU''))"
    using clean_state_name_case [of "''TAMIL NADU''" None "[]"] h(4,5) by blast
  have c1: "clean_state_name (PyStr ''TAMIL NADU'') = ''Tamil Nadu''"
    using c [THEN conjunct1] e by (rule trans)
  note c2 = c [THEN conjunct2]
  show ?thesis using h a b c1 c2 r by blast
qed


section \<open>Claims on the registry merge\<close>

lemma dict_zip_fold:
  "fold (\<lambda>(k, v) m. m(k \<mapsto> v)) kvs m0 = m0 ++ map_of (rev kvs)"
proof (induction kvs arbitrary: m0)
  case Nil
  then show ?case by simp
next
  case (Cons kv kvs)
  obtain k v where kv: "kv = (k, v)" by (cases kv)
  have "fold (\<lambda>(k, v) m. m(k \<mapsto> v)) (kv # kvs) m0
        = fold (\<lambda>(k, v) m. m(k \<mapsto> v)) kvs (m0(k \<mapsto> v))"
    by (simp add: kv)
  also have "\<dots> = m0(k \<mapsto> v) ++ map_of (rev kvs)"
    by (rule Cons.IH)
  also have "m0(k \<mapsto> v) = m0 ++ [k \<mapsto> v]"
    by simp
  also have "(m0 ++ [k \<mapsto> v]) ++ map_of (rev kvs) = m0 ++ ([k \<mapsto> v] ++ map_of (rev kvs))"
    by simp
  also have "[k \<mapsto> v] ++ map_of (rev kvs) = map_of (rev (kv # kvs))"
    by (simp add: kv)
  finally show ?case .
qed

lemma dict_zip_map_of: "dict_zip ks vs = map_of (rev (zip ks vs))"
  by (simp add: dict_zip_def dict_zip_fold)







lemma load_new_regions [simp]: "new_regions (load_regions csv) = []"
  by (simp add: load_regions_def)

lemma number_from_Nil_iff [simp]: "number_from n ls = [] \<longleftrightarrow> ls = []"
  by (cases ls) simp_all









section \<open>Claims on blank labels and on the first-seen numbering\<close>







text \<open>
  C8. With no registry, the labels Rural, Urban, Total, Rural in this order give the map
  rural to 1, urban to 2, total to 3 and the three new rows (1, Rural), (2, Urban),
  (3, Total) in the registry merge; the lookup extraction of clean\_occupation.py and
  clean\_pca.py numbers the same labels 1, 2, 3 in their order of first appearance,
  gives exactly three rows, and holds Rural once (its dictionary is keyed by the label
  as written).
\<close>

theorem tru_scenario:
  "res_name_to_id (process_regions None
       [PyStr ''Rural'', PyStr ''Urban'', PyStr ''Total'', PyStr ''Rural''])
     = [''rural'' \<mapsto> IdInt 1, ''urban'' \<mapsto> IdInt 2, ''total'' \<mapsto> IdInt 3]
   \<and> res_new_regions (process_regions None
       [PyStr ''Rural'', PyStr ''Urban'', PyStr ''Total'', PyStr ''Rural''])
     = [(IdInt 1, ''Rural''), (IdInt 2, ''Urban''), (IdInt 3, ''Total'')]
   \<and> extract_lookup [''Rural'', ''Urban'', ''Total'', ''Rural'']
     = [(1, ''Rural''), (2, ''Urban''), (3, ''Total'')]
   \<and> lookup_map (extract_lookup [''Rural'', ''Urban'', ''Total'', ''Rural''])
     = [''Rural'' \<mapsto> 1, ''Urban'' \<mapsto> 2, ''Total'' \<mapsto> 3]
   \<and> length (extract_lookup [''Rural'', ''Urban'', ''Total'', ''Rural'']) = 3
   \<and> length (filter (\<lambda>r. snd r = ''Rural'')
        (extract_lookup [''Rural'', ''Urban'', ''Total'', ''Rural''])) = 1"
proof -
  have a: "res_name_to_id (process_regions None
       [PyStr ''Rural'', PyStr ''Urban'', PyStr ''Total'', PyStr ''Rural''])
     = [''rural'' \<mapsto> IdInt 1, ''urban'' \<mapsto> IdInt 2, ''total'' \<mapsto> IdInt 3]"
    by (simp add: reg_eval)
  have b: "res_new_regions (process_regions None
       [PyStr ''Rural'', PyStr ''Urban'', PyStr ''Total'', PyStr ''Rural''])
     = [(IdInt 1, ''Rural''), (IdInt 2, ''Urban''), (IdInt 3, ''Total'')]"
    by (simp add: reg_eval)
  have c: "extract_lookup [''Rural'', ''Urban'', ''Total'', ''Rural'']
     = [(1, ''Rural''), (2, ''Urban''), (3, ''Total'')]"
    by (simp add: extract_lookup_def unique_def upt_rec)
  have d: "lookup_map [(1, ''Rural''), (2, ''Urban''), (3, ''Total'')]
     = [''Rural'' \<mapsto> 1, ''Urban'' \<mapsto> 2, ''Total'' \<mapsto> 3]"
    by (simp add: lookup_map_def dict_zip_def)
  show ?thesis by (simp only: a b c d) simp
qed


section \<open>Claims on unmatched labels in a fact table\<close>

lemma chunks_concat: "0 < n \<Longrightarrow> concat (chunks n xs) = xs"
proof (induction n xs rule: chunks.induct)
  case (1 n xs)
  show ?case
  proof (cases "xs = []")
    case True
    then show ?thesis by (simp add: chunks.simps)
  next
    case False
    with 1 have "concat (chunks n (drop n xs)) = drop n xs" by simp
    with False 1(2) show ?thesis by (subst chunks.simps) simp
  qed
qed

lemma upload_chunks_append:
  "upload_chunks False cs (Some acc) = Some (acc @ concat cs)"
  by (induction cs arbitrary: acc) simp_all

lemma upload_chunks_first:
  "cs \<noteq> [] \<Longrightarrow> upload_chunks True cs tbl = Some (concat cs)"
  by (cases cs) (simp_all add: upload_chunks_append)

lemma chunks_nonempty: "0 < n \<Longrightarrow> xs \<noteq> [] \<Longrightarrow> chunks n xs \<noteq> []"
  by (subst chunks.simps) simp

lemma upload_all_rows:
  "0 < n \<Longrightarrow> upload_chunks True (read_csv_chunks n rows) tbl = Some rows"
  by (cases "rows = []")
     (simp_all add: read_csv_chunks_def upload_chunks_first chunks_nonempty chunks_concat)

lemma lookup_map_None:
  "l \<notin> snd ` set df \<Longrightarrow> lookup_map df l = None"
proof -
  assume a: "l \<notin> snd ` set df"
  have "fst ` set (rev (zip (map snd df) (map fst df))) = snd ` set df"
    by (induction df) auto
  with a have "l \<notin> fst ` set (rev (zip (map snd df) (map fst df)))" by simp
  then show ?thesis
    unfolding lookup_map_def dict_zip_map_of map_of_eq_None_iff .
qed

text \<open>
  C3 (as amended). With an existing TRU lookup, every row of the religion extract
  becomes a row of the stats file, in the same position and with its measures; its
  \<open>tru_id\<close> is what the lookup gives for the label as written, and is missing when
  the label is not a name of the lookup: no other id is made up. The rows are not
  reported and nothing stops the load: \<open>upload_stats\<close> writes all of them to the
  destination table.
\<close>

theorem unmapped_label_written:
  "length (stats_file (process_religion_data (Some tru_rows) df)) = length df
   \<and> (\<forall>j < length df.
         tru_id (stats_file (process_religion_data (Some tru_rows) df) ! j)
           = lookup_map tru_rows (in_tru (df ! j))
         \<and> measures (stats_file (process_religion_data (Some tru_rows) df) ! j) = in_rest (df ! j)
         \<and> (in_tru (df ! j) \<notin> snd ` set tru_rows \<longrightarrow>
              tru_id (stats_file (process_religion_data (Some tru_rows) df) ! j) = None))
   \<and> upload_stats (Some (stats_file (process_religion_data (Some tru_rows) df))) old_table
       = Some (stats_file (process_religion_data (Some tru_rows) df))"
proof -
  have a: "length (stats_file (process_religion_data (Some tru_rows) df)) = length df"
    by (simp add: process_religion_data_def Let_def)
  have b: "tru_id (stats_file (process_religion_data (Some tru_rows) df) ! j)
           = lookup_map tru_rows (in_tru (df ! j))
         \<and> measures (stats_file (process_religion_data (Some tru_rows) df) ! j) = in_rest (df ! j)"
    if "j < length df" for j
    using that by (simp add: process_religion_data_def Let_def)
  have c: "upload_stats (Some rows) old_table = Some rows" for rows :: "'a stats_row list"
    by (simp add: upload_stats_def upload_all_rows)
  show ?thesis using a b c lookup_map_None [of _ tru_rows] by auto
qed

text \<open>
  C3 as stated fails: the area label Semi-Urban against a lookup of Total, Rural and
  Urban gives a stats row with a missing \<open>tru_id\<close>; the row is in the stats file, and
  \<open>upload_stats\<close> writes it to the destination table.
\<close>

theorem unmapped_label_counterexample:
  "stats_file (process_religion_data (Some [(1, ''Total''), (2, ''Rural''), (3, ''Urban'')])
       [\<lparr> in_state = Some 28, in_tru = ''Semi-Urban'', in_religion = ''Hindu'',
          in_rest = [100 :: int] \<rparr>])
     = [\<lparr> state = 28, religion_id = Some 1, tru_id = None, measures = [100] \<rparr>]
   \<and> upload_stats
       (Some [\<lparr> state = 28, religion_id = Some 1, tru_id = None, measures = [100 :: int] \<rparr>]) None
     = Some [\<lparr> state = 28, religion_id = Some 1, tru_id = None, measures = [100] \<rparr>]"
  by (simp add: process_religion_data_def lookup_map_def dict_zip_def extract_lookup_def
      unique_def upload_stats_def read_csv_chunks_def chunks.simps)

theorem unmapped_label_written_witness:
  "''Semi-Urban'' \<notin> snd ` set [(1 :: int, ''Total''), (2, ''Rural''), (3, ''Urban'')]
   \<and> tru_id (stats_file (process_religion_data
         (Some [(1, ''Total''), (2, ''Rural''), (3, ''Urban'')])
         [\<lparr> in_state = Some 28, in_tru = ''Semi-Urban'', in_religion = ''Hindu'',
            in_rest = [100 :: int] \<rparr>]) ! 0) = None
   \<and> measures (stats_file (process_religion_data
         (Some [(1, ''Total''), (2, ''Rural''), (3, ''Urban'')])
         [\<lparr> in_state = Some 28, in_tru = ''Semi-Urban'', in_religion = ''Hindu'',
            in_rest = [100 :: int] \<rparr>]) ! 0) = [100]"
proof -
  let ?tru = "[(1 :: int, ''Total''), (2, ''Rural''), (3, ''Urban'')]"
  let ?df = "[\<lparr> in_state = Some 28, in_tru = ''Semi-Urban'', in_religion = ''Hindu'',
            in_rest = [100 :: int] \<rparr>]"
  have h: "''Semi-Urban'' \<notin> snd ` set ?tru" by simp
  have j: "(0::nat) < length ?df" "in_tru (?df ! 0) = ''Semi-Urban''" "in_rest (?df ! 0) = [100]"
    by simp_all
  from unmapped_label_written [of ?tru ?df None]
  have "\<forall>j < length ?df.
         tru_id (stats_file (process_religion_data (Some ?tru) ?df) ! j)
           = lookup_map ?tru (in_tru (?df ! j))
         \<and> measures (stats_file (process_religion_data (Some ?tru) ?df) ! j) = in_rest (?df ! j)
         \<and> (in_tru (?df ! j) \<notin> snd ` set ?tru \<longrightarrow>
              tru_id (stats_file (process_religion_data (Some ?tru) ?df) ! j) = None)"
    by blast
  from this [rule_format, OF j(1)] h j(2,3)
  have "tru_id (stats_file (process_religion_data (Some ?tru) ?df) ! 0) = None
      \<and> measures (stats_file (process_religion_data (Some ?tru) ?df) ! 0) = [100]"
    by metis
  with h show ?thesis by blast
qed


section \<open>Claims on the upload of dimension tables\<close>

lemma update_regions_existing:
  "\<exists>t'. update_regions csv (Some t) = Some t'
        \<and> t_pkey t' = t_pkey t \<and> t_referenced t' = t_referenced t
        \<and> (t_rows t' = t_rows t
            \<or> (\<exists>df. csv = Some df
                  \<and> t_rows t' = t_rows t @ filter (\<lambda>r. fst r \<notin> fst ` set (t_rows t)) df))"
  by (cases csv) (auto simp: update_regions_def to_sql_append_def Let_def)

lemma distinct_new_rows:
  assumes "distinct (map fst rows)" "distinct (map fst df)"
  shows "distinct (map fst (rows @ filter (\<lambda>r. fst r \<notin> fst ` set rows) df))"
proof -
  have "distinct (map fst (filter (\<lambda>r. fst r \<notin> fst ` set rows) df))"
    using assms(2) by (simp add: distinct_map_filter)
  with assms(1) show ?thesis by (force simp: image_iff)
qed

lemma update_regions_appends:
  assumes "distinct (map fst (t_rows t))" "distinct (map fst df)"
  shows "update_regions (Some df) (Some t)
         = Some (t\<lparr> t_rows := t_rows t @ filter (\<lambda>r. fst r \<notin> fst ` set (t_rows t)) df \<rparr>)"
  using distinct_new_rows [OF assms]
  by (simp add: update_regions_def to_sql_append_def Let_def)

lemma upload_regions_replaces:
  assumes "\<not> t_referenced t"
  shows "\<exists>t'. fst (upload_regions (Some df) (Some t)) = Some t' \<and> t_rows t' = df"
  using assms
  by (simp add: upload_regions_def to_sql_replace_def add_primary_key_def)

text \<open>
  C1 (as amended). For a dimension table that is already at the destination,
  \<open>update_regions\<close> and \<open>upload_tru\<close> of upload\_healthcare.py leave the rows of the
  table as they are and append at most the rows of the local file whose id is not in
  the table, found by id; when the ids of the table and of the file are distinct, they
  append exactly these rows. The dimension loads of the other scripts
  (\<open>upload_regions\<close> of upload\_population\_normalized.py, \<open>upload_tru\<close> of
  upload\_pca.py, \<open>upload_lookups\<close> of upload\_religion.py) replace the table by the
  local file whenever the store accepts it, that is when no foreign key refers to the
  table.
\<close>

theorem dimension_upload_paths:
  "(\<exists>t'. update_regions csv (Some t) = Some t'
        \<and> (t_rows t' = t_rows t
            \<or> (\<exists>df. csv = Some df
                  \<and> t_rows t' = t_rows t @ filter (\<lambda>r. fst r \<notin> fst ` set (t_rows t)) df)))
   \<and> upload_tru csv (Some t) = update_regions csv (Some t)
   \<and> (distinct (map fst (t_rows t)) \<and> distinct (map fst df) \<longrightarrow>
        update_regions (Some df) (Some t)
          = Some (t\<lparr> t_rows := t_rows t @ filter (\<lambda>r. fst r \<notin> fst ` set (t_rows t)) df \<rparr>))
   \<and> (\<not> t_referenced t \<longrightarrow>
        (\<exists>t'. fst (upload_regions (Some df) (Some t)) = Some t' \<and> t_rows t' = df)
        \<and> (\<exists>t' ok. upload_tru_pca (Some df) (Some t) = Inr (Some t', ok) \<and> t_rows t' = df)
        \<and> (\<exists>t'. fst (upload_lookups (Some df) tru_csv (Some t, tru_dest)) = Some t'
                  \<and> t_rows t' = df)
        \<and> (\<exists>t'. snd (upload_lookups religions_csv (Some df) (religions_dest, Some t)) = Some t'
                  \<and> t_rows t' = df))"
proof -
  have a: "\<exists>t'. update_regions csv (Some t) = Some t'
        \<and> (t_rows t' = t_rows t
            \<or> (\<exists>df. csv = Some df
                  \<and> t_rows t' = t_rows t @ filter (\<lambda>r. fst r \<notin> fst ` set (t_rows t)) df))"
    using update_regions_existing [of csv t] by blast
  have b: "upload_tru csv (Some t) = update_regions csv (Some t)"
    by (simp add: upload_tru_def)
  have c: "\<exists>t'. fst (upload_regions (Some df) (Some t)) = Some t' \<and> t_rows t' = df"
    if "\<not> t_referenced t"
    using that by (rule upload_regions_replaces)
  have d: "\<exists>t' ok. upload_tru_pca (Some df) (Some t) = Inr (Some t', ok) \<and> t_rows t' = df"
    if "\<not> t_referenced t"
    using that by (auto simp: upload_tru_pca_def to_sql_replace_def add_primary_key_def)
  show ?thesis
    using a b c d update_regions_appends [of t df]
    by (simp add: upload_lookups_def)
qed

text \<open>
  C1 as stated fails on the population script: a regions table holding the ids 1 and 2
  is replaced by a file that holds id 1 only, with another label; the row of id 2 is
  gone and the row of id 1 is rewritten.
\<close>

theorem dimension_upload_counterexample:
  "upload_regions (Some [(1, ''X'')])
     (Some \<lparr> t_rows = [(1, ''A''), (2, ''B'')], t_pkey = True, t_referenced = False \<rparr>)
   = (Some \<lparr> t_rows = [(1, ''X'')], t_pkey = True, t_referenced = False \<rparr>, True)"
  by (simp add: upload_regions_def to_sql_replace_def add_primary_key_def)

theorem dimension_upload_paths_witness:
  "distinct (map fst [(1 :: int, ''A''), (2, ''B'')]) \<and> distinct (map fst [(1 :: int, ''X''), (3, ''C'')])
   \<and> update_regions (Some [(1, ''X''), (3, ''C'')])
        (Some \<lparr> t_rows = [(1, ''A''), (2, ''B'')], t_pkey = True, t_referenced = True \<rparr>)
      = Some \<lparr> t_rows = [(1, ''A''), (2, ''B''), (3, ''C'')], t_pkey = True, t_referenced = True \<rparr>
   \<and> \<not> t_referenced \<lparr> t_rows = [(1 :: int, ''A''), (2, ''B'')], t_pkey = True, t_referenced = False \<rparr>
   \<and> t_rows (the (fst (upload_regions (Some [(1, ''X''), (3, ''C'')])
        (Some \<lparr> t_rows = [(1, ''A''), (2, ''B'')], t_pkey = True, t_referenced = False \<rparr>))))
      = [(1, ''X''), (3, ''C'')]
   \<and> t_rows (the (snd (upload_lookups (None :: (int \<times> string) list option)
        (Some [(1, ''X''), (3, ''C'')])
        (None, Some \<lparr> t_rows = [(1, ''A''), (2, ''B'')], t_pkey = True, t_referenced = False \<rparr>))))
      = [(1, ''X''), (3, ''C'')]"
proof -
  let ?df = "[(1 :: int, ''X''), (3, ''C'')]"
  let ?t = "\<lparr> t_rows = [(1 :: int, ''A''), (2, ''B'')], t_pkey = True, t_referenced = True \<rparr>"
  let ?u = "\<lparr> t_rows = [(1 :: int, ''A''), (2, ''B'')], t_pkey = True, t_referenced = False \<rparr>"
  have h: "distinct (map fst (t_rows ?t))" "distinct (map fst ?df)" "\<not> t_referenced ?u"
    by simp_all
  note T = dimension_upload_paths [of None ?t ?df "None :: (int \<times> string) list option" None
      "None :: (int \<times> string) list option" None]
  note U = dimension_upload_paths [of None ?u ?df "None :: (int \<times> string) list option" None
      "None :: (int \<times> string) list option" None]
  from T h(1,2)
  have "update_regions (Some ?df) (Some ?t)
          = Some (?t\<lparr> t_rows := t_rows ?t @ filter (\<lambda>r. fst r \<notin> fst ` set (t_rows ?t)) ?df \<rparr>)"
    by blast
  then have a: "update_regions (Some ?df) (Some ?t)
      = Some \<lparr> t_rows = [(1, ''A''), (2, ''B''), (3, ''C'')], t_pkey = True, t_referenced = True \<rparr>"
    by simp
  from U h(3)
  have "\<exists>t'. fst (upload_regions (Some ?df) (Some ?u)) = Some t' \<and> t_rows t' = ?df"
    by blast
  then have b: "t_rows (the (fst (upload_regions (Some ?df) (Some ?u)))) = ?df"
    by auto
  from U h(3)
  have "\<exists>t'. snd (upload_lookups (None :: (int \<times> string) list option) (Some ?df)
                    (None, Some ?u)) = Some t' \<and> t_rows t' = ?df"
    by blast
  then have c: "t_rows (the (snd (upload_lookups (None :: (int \<times> string) list option)
                    (Some ?df) (None, Some ?u)))) = ?df"
    by auto
  from h a b c show ?thesis by simp
qed

section \<open>Claims on integer measures\<close>












end
